theory Spec2Isabelle
  imports Main
begin

section \<open>The Go library functions the encoder calls\<close>

text \<open>
  Go strings are byte sequences, modelled as \<^typ>\<open>string\<close>. The functions of package
  \<^verbatim>\<open>strings\<close> are modelled for the arguments the SDK passes them.
\<close>

fun Join :: "string list \<Rightarrow> string \<Rightarrow> string" where
  "Join [] sep = []"
| "Join [x] sep = x"
| "Join (x # y # ys) sep = x @ sep @ Join (y # ys) sep"

definition TrimLeft :: "string \<Rightarrow> string \<Rightarrow> string" where
  "TrimLeft s cutset = dropWhile (\<lambda>c. c \<in> set cutset) s"

definition TrimRight :: "string \<Rightarrow> string \<Rightarrow> string" where
  "TrimRight s cutset = rev (dropWhile (\<lambda>c. c \<in> set cutset) (rev s))"

definition Trim :: "string \<Rightarrow> string \<Rightarrow> string" where
  "Trim s cutset = TrimRight (TrimLeft s cutset) cutset"

text \<open>\<^verbatim>\<open>strings.TrimSpace\<close> and \<^verbatim>\<open>strings.ToLower\<close> on ASCII text, which is what
  struct tags hold: the white space is tab, newline, vertical tab, form feed, carriage
  return and space, and the letters A to Z have lower-case forms.\<close>

definition isSpace :: "char \<Rightarrow> bool" where
  "isSpace c = (c = CHR '' '' \<or> (9 \<le> (of_char c :: nat) \<and> (of_char c :: nat) \<le> 13))"

definition TrimSpace :: "string \<Rightarrow> string" where
  "TrimSpace s = rev (dropWhile isSpace (rev (dropWhile isSpace s)))"

text \<open>\<^verbatim>\<open>strings.Split(s, sep)\<close> for a separator of one character, which is how every call
  in the SDK uses it. The result is never empty: a string without the separator is its
  own only segment.\<close>

fun Split :: "string \<Rightarrow> char \<Rightarrow> string list" where
  "Split [] c = [[]]"
| "Split (x # xs) c =
     (if x = c then [] # Split xs c
      else (case Split xs c of [] \<Rightarrow> [[x]] | p # ps \<Rightarrow> (x # p) # ps))"

fun hasPrefix :: "string \<Rightarrow> string \<Rightarrow> bool" where
  "hasPrefix s [] = True"
| "hasPrefix [] (p # ps) = False"
| "hasPrefix (x # xs) (p # ps) = (x = p \<and> hasPrefix xs ps)"

fun Contains :: "string \<Rightarrow> string \<Rightarrow> bool" where
  "Contains [] sub = (sub = [])"
| "Contains (x # xs) sub = (hasPrefix (x # xs) sub \<or> Contains xs sub)"

definition toLowerChar :: "char \<Rightarrow> char" where
  "toLowerChar c =
     (if 65 \<le> (of_char c :: nat) \<and> (of_char c :: nat) \<le> 90
      then char_of ((of_char c :: nat) + 32) else c)"

definition ToLower :: "string \<Rightarrow> string" where
  "ToLower s = map toLowerChar s"

text \<open>\<^verbatim>\<open>strings.ReplaceAll(s, old, new)\<close>: the non-overlapping occurrences of \<open>old\<close>
  are replaced from the left. For an empty \<open>old\<close> Go inserts \<open>new\<close> before every
  character and at the end.\<close>

function ReplaceAll :: "string \<Rightarrow> string \<Rightarrow> string \<Rightarrow> string" where
  "ReplaceAll s old new =
     (if old = [] then new @ concat (map (\<lambda>c. c # new) s)
      else if s = [] then []
      else if hasPrefix s old then new @ ReplaceAll (drop (length old) s) old new
      else hd s # ReplaceAll (tl s) old new)"
  by pat_completeness auto
termination
  by (relation "measure (\<lambda>(s, old, new). length s)") auto

declare ReplaceAll.simps [simp del]

subsection \<open>Decimal text of integers\<close>

definition digit :: "nat \<Rightarrow> char" where
  "digit d = char_of (48 + d)"

fun decimal :: "nat \<Rightarrow> string" where
  "decimal n = (if n < 10 then [digit n] else decimal (n div 10) @ [digit (n mod 10)])"

declare decimal.simps [simp del]

definition Itoa :: "int \<Rightarrow> string" where
  "Itoa i = (if i < 0 then CHR ''-'' # decimal (nat (- i)) else decimal (nat i))"

section \<open>Values as reflection sees them\<close>

text \<open>
  The encoder reads its input through package \<^verbatim>\<open>reflect\<close>. A value is what reflection
  finds: its kind, its content, for a struct the tags of its fields in declaration order,
  and whether its type has the methods of the interface \<^verbatim>\<open>Identifier\<close>. Fields of
  interface type, maps, channels and functions are outside the model.
\<close>

text \<open>An identifier is known to the encoder by two methods only: \<^verbatim>\<open>Name()\<close>, and
  \<^verbatim>\<open>FullyQualifiedName()\<close> when the value is also an \<^verbatim>\<open>ObjectIdentifier\<close>
  (\<open>None\<close> when it is not).\<close>

datatype Identifier = Identifier (Name: string) (FullyQualifiedName: "string option")

record StructTag =
  ddl :: string
  db :: string

definition Get :: "StructTag \<Rightarrow> string \<Rightarrow> string" where
  "Get tag key = (if key = ''ddl'' then ddl tag else if key = ''db'' then db tag else [])"

datatype Kind = KInvalid | KBool | KInt | KString | KPtr | KSlice | KStruct

fun Kind_String :: "Kind \<Rightarrow> string" where
  "Kind_String KInvalid = ''invalid''"
| "Kind_String KBool = ''bool''"
| "Kind_String KInt = ''int''"
| "Kind_String KString = ''string''"
| "Kind_String KPtr = ''ptr''"
| "Kind_String KSlice = ''slice''"
| "Kind_String KStruct = ''struct''"

text \<open>A field as the struct type declares it: its tag, and whether its name is exported
  (\<^verbatim>\<open>PkgPath\<close> is empty).\<close>

record FieldDecl =
  Tag :: StructTag
  Exported :: bool

text \<open>\<open>VBool\<close> is a value of type \<^verbatim>\<open>bool\<close>, \<open>VNamedBool\<close> a value of a defined type
  whose underlying type is \<^verbatim>\<open>bool\<close>: reflection gives both the kind Bool, but only the
  first passes the type assertion \<^verbatim>\<open>.(bool)\<close>.\<close>

datatype Value =
    VNil
  | VPtr Value
  | VBool bool
  | VNamedBool bool
  | VInt int
  | VString string
  | VSlice "Value list"
  | VStruct "Identifier option" "(FieldDecl \<times> Value) list"

text \<open>A \<^verbatim>\<open>reflect.Value\<close> is a value or the zero Value, whose kind is Invalid.\<close>

type_synonym reflectValue = "Value option"

fun KindOf :: "Value \<Rightarrow> Kind" where
  "KindOf VNil = KPtr"
| "KindOf (VPtr v) = KPtr"
| "KindOf (VBool b) = KBool"
| "KindOf (VNamedBool b) = KBool"
| "KindOf (VInt i) = KInt"
| "KindOf (VString s) = KString"
| "KindOf (VSlice vs) = KSlice"
| "KindOf (VStruct i fs) = KStruct"

definition Kind_of :: "reflectValue \<Rightarrow> Kind" where
  "Kind_of rv = (case rv of None \<Rightarrow> KInvalid | Some v \<Rightarrow> KindOf v)"

text \<open>\<^verbatim>\<open>Value.Elem()\<close> of a pointer: the zero Value for a nil pointer.\<close>

fun Elem :: "Value \<Rightarrow> reflectValue" where
  "Elem (VPtr v) = Some v"
| "Elem v = None"

definition IsNil :: "Value \<Rightarrow> bool" where
  "IsNil v = (v = VNil)"

lemma Elem_size: "Elem v = Some e \<Longrightarrow> size e < size v"
  by (cases v) auto

text \<open>
  A \<^verbatim>\<open>reflect.Value\<close> also carries flags. Two of them decide what \<open>getInterface\<close>
  does: \<open>flagRO\<close>, set when the value was reached through an unexported field, and
  \<open>flagAddr\<close>, set when the value is addressable. The functions of the encoder take a
  value and its flags side by side. \<^verbatim>\<open>reflect.ValueOf\<close> gives neither flag;
  \<^verbatim>\<open>Elem\<close> of a pointer and \<^verbatim>\<open>Index\<close> of a slice keep \<open>flagRO\<close> and give an
  addressable value; \<^verbatim>\<open>Field\<close> keeps both flags of the struct and sets \<open>flagRO\<close> for
  an unexported field.
\<close>

record flag =
  flagRO :: bool
  flagAddr :: bool

definition ValueOf_flag :: flag where
  "ValueOf_flag = \<lparr>flagRO = False, flagAddr = False\<rparr>"

definition Elem_flag :: "flag \<Rightarrow> flag" where
  "Elem_flag fl = \<lparr>flagRO = flagRO fl, flagAddr = True\<rparr>"

definition Index_flag :: "flag \<Rightarrow> flag" where
  "Index_flag fl = \<lparr>flagRO = flagRO fl, flagAddr = True\<rparr>"

definition Field_flag :: "flag \<Rightarrow> FieldDecl \<Rightarrow> flag" where
  "Field_flag fl decl = \<lparr>flagRO = (flagRO fl \<or> \<not> Exported decl), flagAddr = flagAddr fl\<rparr>"

definition CanInterface :: "flag \<Rightarrow> bool" where
  "CanInterface fl = (\<not> flagRO fl)"

text \<open>The type assertion \<^verbatim>\<open>v.(Identifier)\<close> with its \<open>ok\<close> flag. The identifier types
  of the SDK are structs with value receivers, so a pointer to one has the methods too;
  a nil pointer is taken to be of a type without them.\<close>

fun asIdentifier :: "Value \<Rightarrow> Identifier option" where
  "asIdentifier (VStruct i fs) = i"
| "asIdentifier (VPtr v) = asIdentifier v"
| "asIdentifier v = None"

text \<open>\<^verbatim>\<open>fmt.Sprintf("%v", v)\<close>. \<open>VString s\<close> stands for every value of kind string,
  of a named type such as \<^verbatim>\<open>Privilege\<close> or \<^verbatim>\<open>sqlStaticClause\<close> too, whose text is
  \<open>s\<close>. Composite values follow Go's default format, for types without a
  \<^verbatim>\<open>String\<close> method. Go prints the address of a pointer to a scalar and of a pointer
  inside a composite value; the model has no addresses, and the pointed value follows an
  ampersand there, as it does in Go for a pointer to a struct or slice at top level.\<close>

fun fmt_v :: "Value \<Rightarrow> string" where
  "fmt_v VNil = ''<nil>''"
| "fmt_v (VPtr v) = CHR ''&'' # fmt_v v"
| "fmt_v (VBool b) = (if b then ''true'' else ''false'')"
| "fmt_v (VNamedBool b) = (if b then ''true'' else ''false'')"
| "fmt_v (VInt i) = Itoa i"
| "fmt_v (VString s) = s"
| "fmt_v (VSlice vs) = ''['' @ Join (map fmt_v vs) '' '' @ '']''"
| "fmt_v (VStruct i fs) = ''{'' @ Join (map (\<lambda>f. fmt_v (snd f)) fs) '' '' @ ''}''"

section \<open>Modifiers\<close>

text \<open>The four modifier types are string types: a modifier read from a tag by
  \<open>getModifier\<close> is whatever text the tag holds.\<close>

type_synonym modifierType = string
type_synonym quoteModifier = string
type_synonym parenModifier = string
type_synonym reverseModifier = string
type_synonym equalsModifier = string

definition quoteModifierType :: modifierType where "quoteModifierType = ''quotes''"
definition parenModifierType :: modifierType where "parenModifierType = ''paren''"
definition reverseModifierType :: modifierType where "reverseModifierType = ''reverse''"
definition equalsModifierType :: modifierType where "equalsModifierType = ''equals''"

definition NoQuotes :: quoteModifier where "NoQuotes = ''no_quotes''"
definition DoubleQuotes :: quoteModifier where "DoubleQuotes = ''double_quotes''"
definition SingleQuotes :: quoteModifier where "SingleQuotes = ''single_quotes''"

definition quoteModifier_String :: "quoteModifier \<Rightarrow> string" where
  "quoteModifier_String qm =
     (if qm = NoQuotes then []
      else if qm = DoubleQuotes then [CHR 0x22]
      else if qm = SingleQuotes then [CHR 0x27]
      else [])"

definition quoteModifier_Modify :: "quoteModifier \<Rightarrow> Value \<Rightarrow> string" where
  "quoteModifier_Modify qm v =
     (let s = fmt_v v in
      if qm = NoQuotes then s
      else if qm = DoubleQuotes then
        (let escapedString =
               ReplaceAll s (quoteModifier_String qm)
                 (quoteModifier_String qm @ quoteModifier_String qm)
         in quoteModifier_String qm @ escapedString @ quoteModifier_String qm)
      else if qm = SingleQuotes then
        (let escapedString = ReplaceAll s (quoteModifier_String qm) [CHR 0x5C, CHR 0x27]
         in quoteModifier_String qm @ escapedString @ quoteModifier_String qm)
      else s)"

definition NoParentheses :: parenModifier where "NoParentheses = ''no_parentheses''"
definition Parentheses :: parenModifier where "Parentheses = ''parentheses''"

definition parenModifier_Modify :: "parenModifier \<Rightarrow> Value \<Rightarrow> string" where
  "parenModifier_Modify pm v =
     (let s = fmt_v v in
      if pm = NoParentheses then s
      else if pm = Parentheses then ''('' @ s @ '')''
      else s)"

definition NoReverse :: reverseModifier where "NoReverse = ''no_reverse''"
definition Reverse :: reverseModifier where "Reverse = ''reverse''"

text \<open>The loop of \<^verbatim>\<open>reverseModifier.Modify\<close> swaps the entries \<open>i\<close> and
  \<open>len - 1 - i\<close> for \<open>i\<close> from \<open>len / 2 - 1\<close> down to 0; the first argument counts
  the iterations left, that is \<open>i + 1\<close>.\<close>

fun reverse_loop :: "nat \<Rightarrow> string list \<Rightarrow> string list" where
  "reverse_loop 0 v = v"
| "reverse_loop (Suc i) v =
     (let opp = length v - 1 - i
      in reverse_loop i (v[i := v ! opp, opp := v ! i]))"

definition reverseModifier_Modify :: "reverseModifier \<Rightarrow> string list \<Rightarrow> string" where
  "reverseModifier_Modify rm v =
     (if rm = NoReverse then Join v '' ''
      else if rm = Reverse then Join (reverse_loop (length v div 2) v) '' ''
      else Join v '' '')"

definition Equals :: equalsModifier where "Equals = ''equals''"
definition NoEquals :: equalsModifier where "NoEquals = ''no_equals''"

definition equalsModifier_Modify :: "equalsModifier \<Rightarrow> Value \<Rightarrow> string" where
  "equalsModifier_Modify em v =
     (if em = Equals then TrimLeft (fmt_v v @ '' = '') '' ''
      else TrimLeft (fmt_v v @ '' '') '' '')"

fun getModifier_loop :: "string list \<Rightarrow> modifierType \<Rightarrow> string \<Rightarrow> string" where
  "getModifier_loop [] modType defaultMod = defaultMod"
| "getModifier_loop (part # parts) modType defaultMod =
     (if Contains part modType
         \<and> (modType = quoteModifierType \<or> modType = parenModifierType
              \<or> modType = equalsModifierType \<or> modType = reverseModifierType)
      then TrimSpace part
      else getModifier_loop parts modType defaultMod)"

definition getModifier :: "StructTag \<Rightarrow> string \<Rightarrow> modifierType \<Rightarrow> string \<Rightarrow> string" where
  "getModifier tag tagName modType defaultMod =
     (let tagValue = ToLower (Get tag tagName) in
      if tagValue = [] then defaultMod
      else getModifier_loop (Split tagValue CHR '','') modType defaultMod)"

section \<open>Clauses\<close>

text \<open>The five implementations of \<^verbatim>\<open>sqlClause\<close>, with their fields in the order of the
  struct declarations. The value of a parameter clause is an \<^verbatim>\<open>interface{}\<close>:
  \<open>None\<close> is the nil interface, whose text under \<^verbatim>\<open>%v\<close> is that of a nil pointer.\<close>

datatype sqlClause =
    sqlStaticClause string
  | sqlKeywordClause Value quoteModifier
  | sqlIdentifierClause string Identifier equalsModifier
  | sqlParameterClause string "Value option" quoteModifier equalsModifier reverseModifier
  | sqlListClause "sqlClause list" string parenModifier

fun String :: "sqlClause \<Rightarrow> string" where
  "String (sqlStaticClause v) = v"
| "String (sqlKeywordClause key qm) = quoteModifier_Modify qm key"
| "String (sqlIdentifierClause key val em) =
     (let name = (case FullyQualifiedName val of
                    Some fqn \<Rightarrow> fqn
                  | None \<Rightarrow> quoteModifier_Modify DoubleQuotes (VString (Name val)))
      in if key \<noteq> [] then equalsModifier_Modify em (VString key) @ name else name)"
| "String (sqlParameterClause key val qm em rm) =
     (if rm = Reverse then
        reverseModifier_Modify rm
          [key, (case val of None \<Rightarrow> quoteModifier_Modify qm VNil
                 | Some v \<Rightarrow> quoteModifier_Modify qm v)]
      else
        (let s = equalsModifier_Modify em (VString key) in
         case val of None \<Rightarrow> s | Some v \<Rightarrow> s @ quoteModifier_Modify qm v))"
| "String (sqlListClause clauses sep pm) =
     (if length clauses = 0 then []
      else parenModifier_Modify pm (VString (Join (map String clauses) sep)))"

section \<open>The statement assembler\<close>

text \<open>A \<^verbatim>\<open>[]sqlClause\<close> may hold nil entries: \<open>None\<close>.\<close>

fun sql_loop :: "sqlClause option list \<Rightarrow> string list \<Rightarrow> string list" where
  "sql_loop [] sList = sList"
| "sql_loop (c # clauses) sList =
     (case c of
        None \<Rightarrow> sql_loop clauses sList
      | Some cl \<Rightarrow>
          if String cl \<noteq> [] then sql_loop clauses (sList @ [String cl])
          else sql_loop clauses sList)"

definition sql :: "sqlClause option list \<Rightarrow> string" where
  "sql clauses = Trim (Join (sql_loop clauses []) '' '') '' ''"

definition renderStaticClause :: "sqlClause option list \<Rightarrow> sqlClause" where
  "renderStaticClause clauses = sqlStaticClause (sql clauses)"

section \<open>The struct-to-clause encoder\<close>

text \<open>An error is returned (\<^verbatim>\<open>fmt.Errorf\<close>) or the call panics: a failed type assertion
  without the \<open>ok\<close> flag, or a \<^verbatim>\<open>reflect\<close> method called on a value of the wrong
  kind. A panic is not a return value of the Go function; it is a result here so that
  the model has a branch for it.\<close>

datatype error = Errorf string | Panic string

text \<open>\<^verbatim>\<open>reflect.StructField\<close>: the declaration of the field and the kind of its declared
  type.\<close>

record StructField = FieldDecl +
  Type_Kind :: Kind

text \<open>\<open>getInterface\<close>: the value of a field that can be interfaced is read safely.
  Otherwise the field is read through its address, and \<^verbatim>\<open>UnsafeAddr\<close> panics when the
  value is not addressable.\<close>

definition getInterface :: "Value \<Rightarrow> flag \<Rightarrow> error + Value" where
  "getInterface field fl =
     (if CanInterface fl then Inr field
      else if flagAddr fl then Inr field
      else Inl (Panic ''reflect.Value.UnsafeAddr of unaddressable value''))"

lemma getInterface_Inr:
  "getInterface v fl = Inr r \<longleftrightarrow> r = v \<and> (CanInterface fl \<or> flagAddr fl)"
  by (auto simp: getInterface_def)

text \<open>\<^verbatim>\<open>strings.Split(tag, ",")[0]\<close>; the index is in range since \<open>Split\<close> never
  returns the empty list.\<close>

definition firstPart :: "string \<Rightarrow> string" where
  "firstPart tag = (case Split tag CHR '','' of [] \<Rightarrow> [] | p # ps \<Rightarrow> p)"

text \<open>The second loop of \<open>parseStruct\<close>: nil and empty clauses are dropped.\<close>

fun prune :: "sqlClause option list \<Rightarrow> sqlClause list" where
  "prune [] = []"
| "prune (c # clauses) =
     (case c of
        None \<Rightarrow> prune clauses
      | Some cl \<Rightarrow> if String cl \<noteq> [] then cl # prune clauses else prune clauses)"

text \<open>
  \<open>parseStruct_loop\<close> is the loop over the fields of \<open>parseStruct\<close> (the second
  argument holds the flags of the struct \<open>v\<close>, the third is \<open>clauses\<close>),
  \<open>parseStruct_switch\<close> the switch on the kind of the dereferenced field value in its
  body, and \<open>parseFieldSlice_loop\<close> the loop over the elements of \<open>parseFieldSlice\<close>
  (the last argument is \<open>listClauses\<close>).
  In \<open>parseFieldStruct\<close> the cases of the switch that return (an identifier that
  passes the type assertion, and the list) come first; the others (the keyword, an
  identifier that fails the assertion, any other tag, no tag) leave the switch and differ
  only in \<open>clauses\<close>, so they share the last branch.
\<close>

function parseStruct :: "Value \<Rightarrow> error + sqlClause list"
  and parseStruct_loop ::
    "(FieldDecl \<times> Value) list \<Rightarrow> flag \<Rightarrow> sqlClause option list
      \<Rightarrow> error + sqlClause option list"
  and parseStruct_switch :: "StructField \<Rightarrow> Value \<Rightarrow> flag \<Rightarrow> error + sqlClause option"
  and parseFieldStruct :: "StructField \<Rightarrow> Value \<Rightarrow> flag \<Rightarrow> error + sqlClause option"
  and parseFieldSlice :: "StructField \<Rightarrow> Value \<Rightarrow> flag \<Rightarrow> error + sqlClause option"
  and parseFieldSlice_loop ::
    "StructField \<Rightarrow> Value list \<Rightarrow> flag \<Rightarrow> sqlClause list \<Rightarrow> error + sqlClause list"
  and parseField :: "StructField \<Rightarrow> Value \<Rightarrow> flag \<Rightarrow> error + sqlClause option"
where
  "parseStruct s =
     (let v = (if KindOf s = KPtr then Elem s else Some s);
          vflag = (if KindOf s = KPtr then Elem_flag ValueOf_flag else ValueOf_flag)
      in
        case v of
          Some (VStruct i fs) \<Rightarrow>
            (case parseStruct_loop fs vflag [] of
               Inl err \<Rightarrow> Inl err
             | Inr clauses \<Rightarrow> Inr (prune clauses))
        | _ \<Rightarrow> Inl (Errorf (''expected struct, got '' @ Kind_String (Kind_of v))))"
| "parseStruct_loop [] vflag clauses = Inr clauses"
| "parseStruct_loop (f # fs) vflag clauses =
     (let field = \<lparr>Tag = Tag (fst f), Exported = Exported (fst f), Type_Kind = KindOf (snd f)\<rparr>;
          value = snd f;
          fl = Field_flag vflag (fst f)
      in if KindOf value = KPtr \<and> IsNil value then parseStruct_loop fs vflag clauses
         else
           (case parseStruct_switch field
                   (if KindOf value = KPtr
                    then (case Elem value of Some e \<Rightarrow> e | None \<Rightarrow> value)
                    else value)
                   (if KindOf value = KPtr then Elem_flag fl else fl) of
              Inl err \<Rightarrow> Inl err
            | Inr clause \<Rightarrow> parseStruct_loop fs vflag (clauses @ [clause])))"
| "parseStruct_switch field value fl =
     (if KindOf value = KSlice then parseFieldSlice field value fl
      else if KindOf value = KStruct then parseFieldStruct field value fl
      else parseField field value fl)"
| "parseFieldStruct field value fl =
     (let ddlTag = Get (Tag field) ''ddl'' in
      case getInterface value fl of
        Inl err \<Rightarrow> Inl err
      | Inr reflectedValue \<Rightarrow>
         (let ddlType = firstPart ddlTag;
              dbTag = Get (Tag field) ''db''
          in
            if ddlTag \<noteq> [] \<and> ddlType = ''identifier'' \<and> asIdentifier reflectedValue \<noteq> None
            then
              (case asIdentifier reflectedValue of
                 None \<Rightarrow> Inr None
               | Some ident \<Rightarrow>
                   if Name ident = [] then Inr None
                   else Inr (Some (sqlIdentifierClause dbTag ident
                                     (getModifier (Tag field) ''ddl'' equalsModifierType NoEquals))))
            else if ddlTag \<noteq> [] \<and> ddlType = ''list'' then
              (let clauses = (if dbTag \<noteq> [] then [Some (sqlStaticClause dbTag)] else []) in
               case parseStruct reflectedValue of
                 Inl err \<Rightarrow> Inl err
               | Inr fieldStructClauses \<Rightarrow>
                   Inr (Some (renderStaticClause
                     (clauses @
                      [Some (sqlListClause fieldStructClauses '',''
                               (getModifier (Tag field) ''ddl'' parenModifierType
                                  NoParentheses))]))))
            else
              (let clauses =
                     (if ddlTag \<noteq> [] \<and> ddlType = ''keyword''
                      then [Some (sqlKeywordClause (VString dbTag)
                                    (getModifier (Tag field) ''ddl'' quoteModifierType NoQuotes))]
                      else [])
               in case parseStruct reflectedValue of
                    Inl err \<Rightarrow> Inl err
                  | Inr fieldStructClauses \<Rightarrow>
                      Inr (Some (renderStaticClause (clauses @ map Some fieldStructClauses))))))"
| "parseFieldSlice field value0 fl0 =
     (let fl = (if KindOf value0 = KPtr then Elem_flag fl0 else fl0) in
      case (if KindOf value0 = KPtr then Elem value0 else Some value0) of
        Some (VSlice elems) \<Rightarrow>
          (case parseFieldSlice_loop field elems fl [] of
             Inl err \<Rightarrow> Inl err
           | Inr listClauses \<Rightarrow>
               if length listClauses < 1 then Inr None
               else
                 (let clauses =
                        [Some (sqlListClause listClauses '',''
                                 (getModifier (Tag field) ''ddl'' parenModifierType NoParentheses))];
                      sClause = renderStaticClause clauses;
                      ddlTag = firstPart (Get (Tag field) ''ddl'');
                      dbTag = Get (Tag field) ''db''
                  in
                    if ddlTag = ''parameter'' then
                      Inr (Some (sqlParameterClause dbTag (Some (VString (String sClause)))
                        (getModifier (Tag field) ''ddl'' quoteModifierType NoQuotes)
                        (getModifier (Tag field) ''ddl'' equalsModifierType Equals)
                        (getModifier (Tag field) ''ddl'' reverseModifierType NoReverse)))
                    else if ddlTag = ''keyword'' then
                      Inr (Some (renderStaticClause
                        [Some (sqlKeywordClause (VString dbTag)
                                 (getModifier (Tag field) ''ddl'' quoteModifierType NoQuotes)),
                         Some sClause]))
                    else Inr (Some sClause)))
      | _ \<Rightarrow> Inl (Panic ''reflect: call of reflect.Value.Len on a value that is no slice''))"
| "parseFieldSlice_loop field [] fl listClauses = Inr listClauses"
| "parseFieldSlice_loop field (e # elems) fl listClauses =
     (case getInterface e (Index_flag fl) of
        Inl err \<Rightarrow> Inl err
      | Inr reflectedValue \<Rightarrow>
         (case asIdentifier reflectedValue of
            Some identifier \<Rightarrow>
              parseFieldSlice_loop field elems fl
                (listClauses @
                 [sqlIdentifierClause [] identifier
                    (getModifier (Tag field) ''ddl'' equalsModifierType NoEquals)])
          | None \<Rightarrow>
              if KindOf e = KStruct \<or> KindOf e = KPtr then
                (case parseStruct reflectedValue of
                   Inl err \<Rightarrow> Inl err
                 | Inr structClauses \<Rightarrow>
                     parseFieldSlice_loop field elems fl
                       (listClauses @ [renderStaticClause (map Some structClauses)]))
              else
                parseFieldSlice_loop field elems fl
                  (listClauses @ [sqlStaticClause (fmt_v reflectedValue)])))"
| "parseField field value0 fl0 =
     (if Get (Tag field) ''ddl'' = [] then Inr None
      else
        (let value = (if KindOf value0 = KPtr then Elem value0 else Some value0);
             fl = (if KindOf value0 = KPtr then Elem_flag fl0 else fl0);
             ddlTag = firstPart (Get (Tag field) ''ddl'');
             dbTag = Get (Tag field) ''db''
         in
           if ddlTag = ''static'' then Inr (Some (sqlStaticClause dbTag))
           else
             (case value of
                None \<Rightarrow> Inr None
              | Some val \<Rightarrow>
                 (case getInterface val fl of
                    Inl err \<Rightarrow> Inl err
                  | Inr reflectedValue \<Rightarrow>
                      if Type_Kind field = KStruct then
                        (case parseStruct reflectedValue of
                           Inl err \<Rightarrow> Inl err
                         | Inr structClauses \<Rightarrow>
                             Inr (Some (renderStaticClause (map Some structClauses))))
                      else if ddlTag = ''keyword'' then
                        (if KindOf val = KBool then
                           (case reflectedValue of
                              VBool useKeyword \<Rightarrow>
                                if useKeyword then
                                  Inr (Some (renderStaticClause
                                    [Some (sqlKeywordClause (VString dbTag)
                                       (getModifier (Tag field) ''ddl'' quoteModifierType
                                          NoQuotes))]))
                                else Inr None
                            | _ \<Rightarrow> Inl (Panic ''interface conversion: value is not bool''))
                         else
                           Inr (Some (renderStaticClause
                             [Some (sqlKeywordClause reflectedValue
                                (getModifier (Tag field) ''ddl'' quoteModifierType NoQuotes))])))
                      else if ddlTag = ''identifier'' then
                        (case asIdentifier reflectedValue of
                           None \<Rightarrow>
                             Inl (Panic ''interface conversion: value is not sdk.Identifier'')
                         | Some ident \<Rightarrow>
                             Inr (Some (renderStaticClause
                               [Some (sqlIdentifierClause dbTag ident
                                  (getModifier (Tag field) ''ddl'' equalsModifierType
                                     NoEquals))])))
                      else if ddlTag = ''parameter'' then
                        Inr (Some (renderStaticClause
                          [Some (sqlParameterClause dbTag (Some reflectedValue)
                             (getModifier (Tag field) ''ddl'' quoteModifierType NoQuotes)
                             (getModifier (Tag field) ''ddl'' equalsModifierType Equals)
                             (getModifier (Tag field) ''ddl'' reverseModifierType NoReverse))]))
                      else Inr None))))"
  by pat_completeness auto
termination
proof (relation "measure (\<lambda>x. case x of
       Inl (Inl s) \<Rightarrow> 4 * size s + 1
     | Inl (Inr (Inl (fs, vflag, cs))) \<Rightarrow> 4 * size_list (size_prod (\<lambda>x. 0) size) fs
     | Inl (Inr (Inr (f, v, fl))) \<Rightarrow> 4 * size v + 3
     | Inr (Inl (Inl (f, v, fl))) \<Rightarrow> 4 * size v + 2
     | Inr (Inl (Inr (f, v, fl))) \<Rightarrow> 4 * size v + 2
     | Inr (Inr (Inl (f, es, fl, cs))) \<Rightarrow> 4 * size_list size es
     | Inr (Inr (Inr (f, v, fl))) \<Rightarrow> 4 * size v + 2)")
qed (auto simp: getInterface_Inr split: if_splits option.splits
      dest: Elem_size Elem_size [OF sym])

declare parseStruct.simps [simp del] parseStruct_switch.simps [simp del]
  parseFieldStruct.simps [simp del] parseFieldSlice.simps [simp del]
  parseField.simps [simp del]

definition structToSQL :: "Value \<Rightarrow> error + string" where
  "structToSQL v =
     (case parseStruct v of
        Inl err \<Rightarrow> Inl err
      | Inr clauses \<Rightarrow> Inr (sql (map Some clauses)))"

section \<open>Identifiers and validations\<close>

text \<open>Modelled from the spec: the declaration of \<^verbatim>\<open>AccountObjectIdentifier\<close> and its
  constructor are not among the source files. An account object identifier is an object
  identifier (it has both methods), and its fully qualified name is its name in double
  quotes, as the scenario of the spec renders the share \<open>S1\<close>.\<close>

definition NewAccountObjectIdentifier :: "string \<Rightarrow> Identifier" where
  "NewAccountObjectIdentifier name = Identifier name (Some ([CHR 0x22] @ name @ [CHR 0x22]))"

text \<open>What reflection sees of an identifier: a struct with the methods, whose fields (the
  parts of the name) are unexported and carry no tag.\<close>

definition IdentifierValue :: "Identifier \<Rightarrow> Value" where
  "IdentifierValue ident =
     VStruct (Some ident)
       [(\<lparr>Tag = \<lparr>ddl = [], db = []\<rparr>, Exported = False\<rparr>, VString (Name ident))]"

text \<open>Modelled from the spec: \<^verbatim>\<open>validObjectidentifier\<close> is not among the source files
  (its tests are). An identifier is valid when its name is not empty and has at most 255
  characters.\<close>

definition validObjectidentifier :: "Identifier \<Rightarrow> bool" where
  "validObjectidentifier objectIdentifier =
     (let l = length (Name objectIdentifier) in \<not> (l = 0 \<or> l > 255))"

text \<open>Modelled from the spec: \<^verbatim>\<open>valueSet\<close>, \<^verbatim>\<open>exactlyOneValueSet\<close> and
  \<^verbatim>\<open>everyValueNil\<close> are not among the source files (their tests are). A value is set
  when it is not nil; an identifier is set when it is well formed. Exactly one value is
  set when the count of the set values is one; every value is nil when none is set.\<close>

definition valueSet :: "Value \<Rightarrow> bool" where
  "valueSet v =
     (case asIdentifier v of
        Some ident \<Rightarrow> validObjectidentifier ident
      | None \<Rightarrow> \<not> IsNil v)"

fun countValuesSet :: "Value list \<Rightarrow> nat" where
  "countValuesSet [] = 0"
| "countValuesSet (v # values) =
     (if valueSet v then countValuesSet values + 1 else countValuesSet values)"

definition exactlyOneValueSet :: "Value list \<Rightarrow> bool" where
  "exactlyOneValueSet values = (countValuesSet values = 1)"

fun everyValueNil :: "Value list \<Rightarrow> bool" where
  "everyValueNil [] = True"
| "everyValueNil (v # values) = (if valueSet v then False else everyValueNil values)"

section \<open>Grants\<close>

type_synonym Privilege = string
type_synonym ObjectType = string

text \<open>Modelled from the spec: the constant \<^verbatim>\<open>ObjectTypeShare\<close> is not among the source
  files; the object type of a share is the text SHARE.\<close>

definition ObjectTypeShare :: ObjectType where
  "ObjectTypeShare = ''SHARE''"

text \<open>\<^verbatim>\<open>time.Time\<close> is carried through unchanged; an integer stands for it.\<close>

type_synonym Time = int

record Grant =
  CreatedOn :: Time
  Privilege :: Privilege
  GrantedOn :: ObjectType
  Name :: Identifier
  GrantedTo :: ObjectType
  GranteeName :: Identifier
  GrantOption :: bool
  GrantedBy :: Identifier

record grantRow =
  CreatedOn :: Time
  Privilege :: string
  GrantedOn :: string
  Name :: string
  GrantedTo :: string
  GranteeName :: string
  GrantOption :: bool
  GrantedBy :: string

definition toGrant :: "grantRow \<Rightarrow> error + Grant" where
  "toGrant row =
     (let grantedTo = grantRow.GrantedTo row;
          granteeName = NewAccountObjectIdentifier (grantRow.GranteeName row)
      in
        case (if grantedTo = ObjectTypeShare then
                (let parts = Split (grantRow.GranteeName row) CHR ''.'' in
                 case parts of
                   [] \<Rightarrow> Inl (Panic ''slice bounds out of range'')
                 | p # rest \<Rightarrow> Inr (NewAccountObjectIdentifier (Join rest ''.'')))
              else Inr granteeName) of
          Inl err \<Rightarrow> Inl err
        | Inr granteeName' \<Rightarrow>
            Inr \<lparr>Grant.CreatedOn = grantRow.CreatedOn row,
                 Privilege = grantRow.Privilege row,
                 GrantedOn = grantRow.GrantedOn row,
                 Name = NewAccountObjectIdentifier (Trim (grantRow.Name row) [CHR 0x22]),
                 GrantedTo = grantedTo,
                 GranteeName = granteeName',
                 GrantOption = grantRow.GrantOption row,
                 GrantedBy = NewAccountObjectIdentifier (grantRow.GrantedBy row)\<rparr>)"

subsection \<open>Granting a privilege to a share\<close>

record OnTable =
  Name :: Identifier
  AllInSchema :: Identifier

record GrantPrivilegeToShareOn =
  Database :: Identifier
  Schema :: Identifier
  Function :: Identifier
  Table :: "OnTable option"
  View :: Identifier

record grantPrivilegeToShareOptions =
  "grant" :: bool
  objectPrivilege :: Privilege
  On :: "GrantPrivilegeToShareOn option"
  to :: Identifier

text \<open>The values reflection sees: the fields in declaration order with the tags of the
  struct declarations; a field is exported when its name starts with a capital letter.
  A pointer field is \<open>VNil\<close> when unset.\<close>

definition OnTable_Value :: "OnTable \<Rightarrow> Value" where
  "OnTable_Value v =
     VStruct None
       [(\<lparr>Tag = \<lparr>ddl = ''identifier'', db = ''TABLE''\<rparr>, Exported = True\<rparr>, IdentifierValue (OnTable.Name v)),
        (\<lparr>Tag = \<lparr>ddl = ''identifier'', db = ''ALL TABLES IN SCHEMA''\<rparr>, Exported = True\<rparr>,
           IdentifierValue (OnTable.AllInSchema v))]"

definition GrantPrivilegeToShareOn_Value :: "GrantPrivilegeToShareOn \<Rightarrow> Value" where
  "GrantPrivilegeToShareOn_Value v =
     VStruct None
       [(\<lparr>Tag = \<lparr>ddl = ''identifier'', db = ''DATABASE''\<rparr>, Exported = True\<rparr>, IdentifierValue (Database v)),
        (\<lparr>Tag = \<lparr>ddl = ''identifier'', db = ''SCHEMA''\<rparr>, Exported = True\<rparr>, IdentifierValue (Schema v)),
        (\<lparr>Tag = \<lparr>ddl = ''identifier'', db = ''FUNCTION''\<rparr>, Exported = True\<rparr>, IdentifierValue (Function v)),
        (\<lparr>Tag = \<lparr>ddl = ''-'', db = []\<rparr>, Exported = True\<rparr>,
           (case Table v of None \<Rightarrow> VNil | Some t \<Rightarrow> VPtr (OnTable_Value t))),
        (\<lparr>Tag = \<lparr>ddl = ''identifier'', db = ''VIEW''\<rparr>, Exported = True\<rparr>, IdentifierValue (View v))]"

definition grantPrivilegeToShareOptions_Value :: "grantPrivilegeToShareOptions \<Rightarrow> Value" where
  "grantPrivilegeToShareOptions_Value opts =
     VStruct None
       [(\<lparr>Tag = \<lparr>ddl = ''static'', db = ''GRANT''\<rparr>, Exported = False\<rparr>, VBool (grant opts)),
        (\<lparr>Tag = \<lparr>ddl = ''keyword'', db = []\<rparr>, Exported = False\<rparr>, VString (objectPrivilege opts)),
        (\<lparr>Tag = \<lparr>ddl = ''keyword'', db = ''ON''\<rparr>, Exported = True\<rparr>,
           (case grantPrivilegeToShareOptions.On opts of
              None \<Rightarrow> VNil
            | Some on \<Rightarrow> VPtr (GrantPrivilegeToShareOn_Value on))),
        (\<lparr>Tag = \<lparr>ddl = ''identifier'', db = ''TO SHARE''\<rparr>, Exported = False\<rparr>, IdentifierValue (to opts))]"

subsection \<open>Showing grants\<close>

text \<open>The declaration of \<^verbatim>\<open>Object\<close> is not among the source files: the field
  \<open>Object\<close> holds the value as reflection sees it, \<open>VNil\<close> when unset.\<close>

record ShowGrantsOn =
  Account :: "bool option"
  Object :: Value

record ShowGrantsTo =
  Role :: Identifier
  User :: Identifier
  Share :: Identifier

record ShowGrantsOf =
  Role :: Identifier
  Share :: Identifier

record ShowGrantsOptions =
  "show" :: bool
  grants :: bool
  On :: "ShowGrantsOn option"
  To :: "ShowGrantsTo option"
  Of :: "ShowGrantsOf option"

definition ShowGrantsOn_Value :: "ShowGrantsOn \<Rightarrow> Value" where
  "ShowGrantsOn_Value v =
     VStruct None
       [(\<lparr>Tag = \<lparr>ddl = ''keyword'', db = ''ACCOUNT''\<rparr>, Exported = True\<rparr>,
           (case Account v of None \<Rightarrow> VNil | Some b \<Rightarrow> VPtr (VBool b))),
        (\<lparr>Tag = \<lparr>ddl = [], db = []\<rparr>, Exported = True\<rparr>, Object v)]"

definition ShowGrantsTo_Value :: "ShowGrantsTo \<Rightarrow> Value" where
  "ShowGrantsTo_Value v =
     VStruct None
       [(\<lparr>Tag = \<lparr>ddl = ''identifier'', db = ''ROLE''\<rparr>, Exported = True\<rparr>, IdentifierValue (ShowGrantsTo.Role v)),
        (\<lparr>Tag = \<lparr>ddl = ''identifier'', db = ''USER''\<rparr>, Exported = True\<rparr>, IdentifierValue (ShowGrantsTo.User v)),
        (\<lparr>Tag = \<lparr>ddl = ''identifier'', db = ''SHARE''\<rparr>, Exported = True\<rparr>, IdentifierValue (ShowGrantsTo.Share v))]"

definition ShowGrantsOf_Value :: "ShowGrantsOf \<Rightarrow> Value" where
  "ShowGrantsOf_Value v =
     VStruct None
       [(\<lparr>Tag = \<lparr>ddl = ''identifier'', db = ''ROLE''\<rparr>, Exported = True\<rparr>, IdentifierValue (ShowGrantsOf.Role v)),
        (\<lparr>Tag = \<lparr>ddl = ''identifier'', db = ''SHARE''\<rparr>, Exported = True\<rparr>, IdentifierValue (ShowGrantsOf.Share v))]"

definition On_Value :: "ShowGrantsOptions \<Rightarrow> Value" where
  "On_Value opts =
     (case ShowGrantsOptions.On opts of None \<Rightarrow> VNil | Some v \<Rightarrow> VPtr (ShowGrantsOn_Value v))"

definition To_Value :: "ShowGrantsOptions \<Rightarrow> Value" where
  "To_Value opts =
     (case To opts of None \<Rightarrow> VNil | Some v \<Rightarrow> VPtr (ShowGrantsTo_Value v))"

definition Of_Value :: "ShowGrantsOptions \<Rightarrow> Value" where
  "Of_Value opts =
     (case Of opts of None \<Rightarrow> VNil | Some v \<Rightarrow> VPtr (ShowGrantsOf_Value v))"

definition ShowGrantsOptions_Value :: "ShowGrantsOptions \<Rightarrow> Value" where
  "ShowGrantsOptions_Value opts =
     VStruct None
       [(\<lparr>Tag = \<lparr>ddl = ''static'', db = ''SHOW''\<rparr>, Exported = False\<rparr>, VBool (show opts)),
        (\<lparr>Tag = \<lparr>ddl = ''static'', db = ''GRANTS''\<rparr>, Exported = False\<rparr>, VBool (grants opts)),
        (\<lparr>Tag = \<lparr>ddl = ''keyword'', db = ''ON''\<rparr>, Exported = True\<rparr>, On_Value opts),
        (\<lparr>Tag = \<lparr>ddl = ''keyword'', db = ''TO''\<rparr>, Exported = True\<rparr>, To_Value opts),
        (\<lparr>Tag = \<lparr>ddl = ''keyword'', db = ''OF''\<rparr>, Exported = True\<rparr>, Of_Value opts)]"

text \<open>\<open>validate\<close> returns nil (\<open>None\<close>) or an error.\<close>

definition validate :: "ShowGrantsOptions \<Rightarrow> error option" where
  "validate opts =
     (if everyValueNil [On_Value opts, To_Value opts, Of_Value opts]
      then Some (Errorf ''at least one of on, to, or of is required'')
      else if \<not> exactlyOneValueSet [On_Value opts, To_Value opts, Of_Value opts]
      then Some (Errorf ''only one of on, to, or of can be set'')
      else None)"

text \<open>
  The client is the transport: \<open>query\<close> runs a statement and returns the decoded rows
  or an error. \<open>Show\<close> returns its result together with the calls it made, in order:
  the encoding of an options value by \<open>structToSQL\<close> and the statements handed to the
  client.
\<close>

record Client =
  query :: "string \<Rightarrow> error + grantRow list"

datatype call = Call_structToSQL Value | Call_query string

fun Show_loop :: "grantRow list \<Rightarrow> Grant list \<Rightarrow> error + Grant list" where
  "Show_loop [] gs = Inr gs"
| "Show_loop (row # rows) gs =
     (case toGrant row of
        Inl err \<Rightarrow> Inl err
      | Inr g \<Rightarrow> Show_loop rows (gs @ [g]))"

definition Show :: "Client \<Rightarrow> ShowGrantsOptions option \<Rightarrow> (error + Grant list) \<times> call list" where
  "Show client opts0 =
     (let opts = (case opts0 of
                    None \<Rightarrow> \<lparr>show = False, grants = False, On = None, To = None, Of = None\<rparr>
                  | Some given \<Rightarrow> given)
      in case validate opts of
           Some err \<Rightarrow> (Inl err, [])
         | None \<Rightarrow>
             (case structToSQL (VPtr (ShowGrantsOptions_Value opts)) of
                Inl err \<Rightarrow> (Inl err, [Call_structToSQL (VPtr (ShowGrantsOptions_Value opts))])
              | Inr stmt \<Rightarrow>
                  (case query client stmt of
                     Inl err \<Rightarrow>
                       (Inl err,
                        [Call_structToSQL (VPtr (ShowGrantsOptions_Value opts)), Call_query stmt])
                   | Inr rows \<Rightarrow>
                       (Show_loop rows [],
                        [Call_structToSQL (VPtr (ShowGrantsOptions_Value opts)),
                         Call_query stmt]))))"

section \<open>Notions the properties are stated with\<close>

text \<open>The escaping of one character, in the words of the spec: every occurrence of the
  quote character \<open>q\<close> in \<open>v\<close> is replaced by \<open>esc\<close>, every other character stays.\<close>

definition escapeChar :: "char \<Rightarrow> string \<Rightarrow> string \<Rightarrow> string" where
  "escapeChar q esc v = concat (map (\<lambda>c. if c = q then esc else [c]) v)"

text \<open>The assembler in the words of the spec: the rendered texts of the clauses that are
  not nil and do not render to the empty string, in order.\<close>

fun nonNil :: "'a option list \<Rightarrow> 'a list" where
  "nonNil [] = []"
| "nonNil (None # xs) = nonNil xs"
| "nonNil (Some x # xs) = x # nonNil xs"

definition nonEmptyTexts :: "sqlClause option list \<Rightarrow> string list" where
  "nonEmptyTexts clauses = filter (\<lambda>s. s \<noteq> []) (map String (nonNil clauses))"

text \<open>A scalar-shaped value is a boolean, an integer or a string; \<open>derefOnce\<close> is the
  value the loop of \<open>parseStruct\<close> dispatches on.\<close>

definition isScalar :: "Value \<Rightarrow> bool" where
  "isScalar v = (KindOf v = KBool \<or> KindOf v = KInt \<or> KindOf v = KString)"

definition derefOnce :: "Value \<Rightarrow> Value" where
  "derefOnce v = (case v of VPtr e \<Rightarrow> e | _ \<Rightarrow> v)"

text \<open>Reflection can read a value when it was not reached through an unexported field,
  or when it is addressable: the fields of a struct reached through a pointer, and what
  a pointer field points to.\<close>

definition readable :: "flag \<Rightarrow> bool" where
  "readable fl = (\<not> flagRO fl \<or> flagAddr fl)"




section \<open>Properties\<close>

subsection \<open>Library facts\<close>

lemma Split_not_Nil: "Split s c \<noteq> []"
  by (induction s) (auto split: list.splits)

lemma firstPart_Nil: "firstPart [] = []"
  by (simp add: firstPart_def)

lemma Join_Split: "Join (Split s c) [c] = s"
proof (induction s)
  case Nil
  show ?case by simp
next
  case (Cons x xs)
  show ?case
  proof (cases "x = c")
    case True
    with Cons show ?thesis by (cases "Split xs c") (simp_all add: Split_not_Nil)
  next
    case False
    obtain p ps where sp: "Split xs c = p # ps"
      using Split_not_Nil by (cases "Split xs c") auto
    with Cons False show ?thesis by (cases ps) simp_all
  qed
qed

lemma Join_tl_Split: "Join (tl (Split s c)) [c] = drop 1 (dropWhile (\<lambda>x. x \<noteq> c) s)"
proof (induction s)
  case Nil
  show ?case by simp
next
  case (Cons x xs)
  show ?case
  proof (cases "x = c")
    case True
    then show ?thesis by (simp add: Join_Split)
  next
    case False
    obtain p ps where sp: "Split xs c = p # ps"
      using Split_not_Nil by (cases "Split xs c") auto
    with Cons False show ?thesis by simp
  qed
qed

lemma ReplaceAll_char: "ReplaceAll s [q] new = escapeChar q new s"
proof (induction s)
  case Nil
  show ?case by (simp add: ReplaceAll.simps [of "[]"] escapeChar_def)
next
  case (Cons x xs)
  have "ReplaceAll (x # xs) [q] new =
          (if x = q then new @ ReplaceAll xs [q] new else x # ReplaceAll xs [q] new)"
    by (subst ReplaceAll.simps) simp
  with Cons show ?case by (simp add: escapeChar_def)
qed

text \<open>Trimming spaces removes spaces at the two ends and nothing else.\<close>

lemma takeWhile_space:
  "takeWhile (\<lambda>c. c \<in> set '' '') s
     = replicate (length (takeWhile (\<lambda>c. c \<in> set '' '') s)) CHR '' ''"
  by (induction s) auto

lemma TrimLeft_decomp: "\<exists>n. s = replicate n CHR '' '' @ TrimLeft s '' ''"
proof -
  have "s = takeWhile (\<lambda>c. c \<in> set '' '') s @ TrimLeft s '' ''"
    by (simp add: TrimLeft_def)
  then show ?thesis using takeWhile_space [of s] by metis
qed

lemma TrimRight_decomp: "\<exists>m. s = TrimRight s '' '' @ replicate m CHR '' ''"
proof -
  obtain n where "rev s = replicate n CHR '' '' @ TrimLeft (rev s) '' ''"
    using TrimLeft_decomp by blast
  then have "rev (rev s) = rev (TrimLeft (rev s) '' '') @ rev (replicate n CHR '' '')"
    by (metis rev_append)
  then show ?thesis by (auto simp: TrimRight_def TrimLeft_def)
qed

lemma Trim_decomp: "\<exists>n m. s = replicate n CHR '' '' @ Trim s '' '' @ replicate m CHR '' ''"
proof -
  obtain n where n: "s = replicate n CHR '' '' @ TrimLeft s '' ''"
    using TrimLeft_decomp by blast
  obtain m where m: "TrimLeft s '' '' = TrimRight (TrimLeft s '' '') '' '' @ replicate m CHR '' ''"
    using TrimRight_decomp by blast
  from n m have "s = replicate n CHR '' '' @ Trim s '' '' @ replicate m CHR '' ''"
    unfolding Trim_def by metis
  then show ?thesis by blast
qed

lemma TrimLeft_no_leading: "take 1 (TrimLeft s '' '') \<noteq> '' ''"
proof (cases "TrimLeft s '' ''")
  case Nil
  then show ?thesis by simp
next
  case (Cons x xs)
  then have "dropWhile (\<lambda>c. c \<in> set '' '') s = x # xs" by (simp add: TrimLeft_def)
  then have "\<not> (x \<in> set '' '')" by (metis dropWhile_eq_Cons_conv)
  with Cons show ?thesis by simp
qed

lemma TrimRight_no_trailing: "take 1 (rev (TrimRight s '' '')) \<noteq> '' ''"
  using TrimLeft_no_leading [of "rev s"] by (simp add: TrimRight_def TrimLeft_def)

lemma TrimRight_prefix: "\<exists>k. TrimRight s c = take k s"
proof -
  have "TrimRight s c = rev (drop (length (takeWhile (\<lambda>x. x \<in> set c) (rev s))) (rev s))"
    by (simp add: TrimRight_def dropWhile_eq_drop)
  then show ?thesis by (metis rev_drop rev_rev_ident)
qed

lemma Trim_no_leading: "take 1 (Trim s '' '') \<noteq> '' ''"
proof -
  obtain k where k: "Trim s '' '' = take k (TrimLeft s '' '')"
    unfolding Trim_def using TrimRight_prefix by blast
  show ?thesis
  proof (cases k)
    case 0
    with k show ?thesis by simp
  next
    case (Suc j)
    then have "take 1 (take k (TrimLeft s '' '')) = take 1 (TrimLeft s '' '')" by simp
    with k TrimLeft_no_leading [of s] show ?thesis by simp
  qed
qed

lemma Trim_no_trailing: "take 1 (rev (Trim s '' '')) \<noteq> '' ''"
  unfolding Trim_def by (rule TrimRight_no_trailing)

subsection \<open>Facts about the assembler\<close>

lemma sql_loop_eq: "sql_loop clauses sList = sList @ nonEmptyTexts clauses"
  by (induction clauses arbitrary: sList) (auto simp: nonEmptyTexts_def split: option.splits)

lemma prune_texts: "map String (prune clauses) = nonEmptyTexts clauses"
  by (induction clauses) (auto simp: nonEmptyTexts_def split: option.splits)



lemma valueSet_VNil: "\<not> valueSet VNil"
  by (simp add: valueSet_def IsNil_def)

subsection \<open>The end-to-end scenario of granting a privilege to a share\<close>

text \<open>
  Claim C1. The options value of a grant of a privilege to a share, with the privilege
  SELECT, the target \<open>On\<close> unset and the share identifier named S1, is encoded by
  \<open>structToSQL\<close> as the statement \<^verbatim>\<open>GRANT SELECT TO SHARE "S1"\<close>, and no error is
  returned. The value of the static field \<open>grant\<close> does not matter. The share is
  rendered in double quotes both as an account object identifier and as an identifier
  that has a name only.
\<close>

theorem structToSQL_grant_select_to_share:
  \<open>structToSQL (VPtr (grantPrivilegeToShareOptions_Value
       \<lparr>grant = g, objectPrivilege = ''SELECT'', On = None,
        to = NewAccountObjectIdentifier ''S1''\<rparr>))
     = Inr ''GRANT SELECT TO SHARE "S1"''
   \<and> structToSQL (VPtr (grantPrivilegeToShareOptions_Value
       \<lparr>grant = g, objectPrivilege = ''SELECT'', On = None,
        to = Identifier ''S1'' None\<rparr>))
     = Inr ''GRANT SELECT TO SHARE "S1"''\<close>
  by code_simp

subsection \<open>Validation before encoding\<close>

text \<open>
  Claim C2. \<open>Show\<close> on an options value with \<open>On\<close>, \<open>To\<close> and \<open>Of\<close> all unset returns
  the validation error and has made no call: nothing was encoded and no statement was
  handed to the client. The same holds for every options value of which none or at least
  two of the three selectors are set, which are the values that fail
  \<open>exactlyOneValueSet\<close>, and for the nil options pointer, which \<open>Show\<close> replaces by the
  zero options value.
\<close>

theorem Show_validates_before_encoding:
  "(ShowGrantsOptions.On opts = None \<and> To opts = None \<and> Of opts = None \<longrightarrow>
      Show client (Some opts)
        = (Inl (Errorf ''at least one of on, to, or of is required''), []))
   \<and> (countValuesSet [On_Value opts, To_Value opts, Of_Value opts] = 0
        \<or> 2 \<le> countValuesSet [On_Value opts, To_Value opts, Of_Value opts] \<longrightarrow>
      \<not> exactlyOneValueSet [On_Value opts, To_Value opts, Of_Value opts]
      \<and> (\<exists>msg. Show client (Some opts) = (Inl (Errorf msg), [])))
   \<and> Show client None = (Inl (Errorf ''at least one of on, to, or of is required''), [])"
  by (auto simp: Show_def validate_def exactlyOneValueSet_def On_Value_def To_Value_def
      Of_Value_def valueSet_VNil split: option.splits)

text \<open>Witness of C2: the options value with no selector set, and the one with both
  \<open>To\<close> and \<open>Of\<close> set.\<close>

theorem Show_validates_before_encoding_witness:
  "Show \<lparr>query = (\<lambda>stmt. Inr [])\<rparr>
       (Some \<lparr>show = False, grants = False, On = None, To = None, Of = None\<rparr>)
     = (Inl (Errorf ''at least one of on, to, or of is required''), [])
   \<and> (\<exists>msg.
        Show \<lparr>query = (\<lambda>stmt. Inr [])\<rparr>
          (Some \<lparr>show = False, grants = False, On = None,
                 To = Some \<lparr>ShowGrantsTo.Role = NewAccountObjectIdentifier ''R'',
                            User = NewAccountObjectIdentifier [],
                            Share = NewAccountObjectIdentifier []\<rparr>,
                 Of = Some \<lparr>ShowGrantsOf.Role = NewAccountObjectIdentifier ''R'',
                            Share = NewAccountObjectIdentifier []\<rparr>\<rparr>)
          = (Inl (Errorf msg), []))"
proof -
  let ?client = "\<lparr>query = (\<lambda>stmt. Inr [])\<rparr>"
  let ?none = "\<lparr>show = False, grants = False, On = None, To = None, Of = None\<rparr>"
  let ?two = "\<lparr>show = False, grants = False, On = None,
                 To = Some \<lparr>ShowGrantsTo.Role = NewAccountObjectIdentifier ''R'',
                            User = NewAccountObjectIdentifier [],
                            Share = NewAccountObjectIdentifier []\<rparr>,
                 Of = Some \<lparr>ShowGrantsOf.Role = NewAccountObjectIdentifier ''R'',
                            Share = NewAccountObjectIdentifier []\<rparr>\<rparr>"
  have unset: "ShowGrantsOptions.On ?none = None \<and> To ?none = None \<and> Of ?none = None"
    by simp
  have two: "2 \<le> countValuesSet [On_Value ?two, To_Value ?two, Of_Value ?two]"
    by code_simp
  from Show_validates_before_encoding [of ?none ?client] unset
    Show_validates_before_encoding [of ?two ?client] two
  show ?thesis by blast
qed

text \<open>When the validation passes, the options value is encoded: the record of calls is
  not empty for want of calls to record.\<close>

lemma Show_encodes_when_valid:
  "validate opts = None \<Longrightarrow>
     \<exists>calls. snd (Show client (Some opts))
        = Call_structToSQL (VPtr (ShowGrantsOptions_Value opts)) # calls"
  by (auto simp: Show_def split: sum.splits)

subsection \<open>Quoting\<close>

text \<open>
  Claim C3. For every string \<open>v\<close>, the double-quote modifier returns \<open>v\<close> between double
  quotes with every double quote inside \<open>v\<close> doubled, the single-quote modifier returns
  \<open>v\<close> between single quotes with every single quote inside \<open>v\<close> replaced by a backslash
  and a single quote, and the no-quotes modifier returns \<open>v\<close> unchanged.
\<close>

theorem quoteModifier_Modify_escapes:
  "quoteModifier_Modify DoubleQuotes (VString v)
     = [CHR 0x22] @ escapeChar (CHR 0x22) [CHR 0x22, CHR 0x22] v @ [CHR 0x22]
   \<and> quoteModifier_Modify SingleQuotes (VString v)
     = [CHR 0x27] @ escapeChar (CHR 0x27) [CHR 0x5C, CHR 0x27] v @ [CHR 0x27]
   \<and> quoteModifier_Modify NoQuotes (VString v) = v"
  by (simp add: quoteModifier_Modify_def quoteModifier_String_def DoubleQuotes_def
      SingleQuotes_def NoQuotes_def ReplaceAll_char)

subsection \<open>A field tagged as an identifier whose value is no identifier\<close>

text \<open>
  Counterexample to claim C4 as stated (such a field makes the encoding fail with a
  cast error): a struct-shaped field tagged \<open>identifier\<close> whose value has no identifier
  methods is encoded without any error; the encoder descends into the struct and renders
  the clauses of its fields.
\<close>

theorem identifier_tag_struct_no_error:
  "structToSQL (VStruct None
     [(\<lparr>Tag = \<lparr>ddl = ''identifier'', db = ''TO''\<rparr>, Exported = True\<rparr>,
       VStruct None
         [(\<lparr>Tag = \<lparr>ddl = ''static'', db = ''FOO''\<rparr>, Exported = True\<rparr>, VBool False)])])
     = Inr ''FOO''"
  by code_simp

text \<open>
  Claim C4, amended. For a field tagged \<open>identifier\<close> whose value does not have the
  identifier methods, no error reports the missing capability. For a scalar-shaped value
  \<open>parseField\<close> panics (its type assertion has no \<open>ok\<close> flag). For a struct-shaped
  value of a field that reflection can read, \<open>parseFieldStruct\<close> tests the assertion
  and, as it fails, parses the value as a nested struct: its result is that of
  \<open>parseStruct\<close> on the value, which is the clauses of the fields of the value
  rendered as one static clause, or the error of that nested parse.
\<close>

theorem identifier_tag_without_capability:
  assumes "firstPart (Get (Tag field) ''ddl'') = ''identifier''"
  shows "(isScalar v \<and> Type_Kind field \<noteq> KStruct \<longrightarrow>
            (\<exists>msg. parseField field v fl = Inl (Panic msg)))
         \<and> (readable fl \<longrightarrow>
              parseFieldStruct field (VStruct None fs) fl =
                (case parseStruct (VStruct None fs) of
                   Inl err \<Rightarrow> Inl err
                 | Inr cs \<Rightarrow> Inr (Some (renderStaticClause (map Some cs)))))"
proof -
  from assms have ddl: "Get (Tag field) ''ddl'' \<noteq> []"
    using firstPart_Nil by auto
  have a: "\<exists>msg. parseField field v fl = Inl (Panic msg)"
    if "isScalar v" "Type_Kind field \<noteq> KStruct"
    using that assms ddl
    by (cases v) (simp_all add: parseField.simps isScalar_def getInterface_def)
  have b: "parseFieldStruct field (VStruct None fs) fl =
             (case parseStruct (VStruct None fs) of
                Inl err \<Rightarrow> Inl err
              | Inr cs \<Rightarrow> Inr (Some (renderStaticClause (map Some cs))))"
    if "readable fl"
    using that assms ddl
    by (auto simp: parseFieldStruct.simps getInterface_def CanInterface_def readable_def
        split: sum.splits)
  from a b show ?thesis by simp
qed

text \<open>Witness of C4, amended: a string field and a struct field, both exported and
  tagged \<open>identifier\<close>, in a struct passed by value.\<close>

theorem identifier_tag_without_capability_witness:
  "(\<exists>msg.
      parseField
        \<lparr>Tag = \<lparr>ddl = ''identifier'', db = ''TO''\<rparr>, Exported = True, Type_Kind = KString\<rparr>
        (VString ''S1'') \<lparr>flagRO = False, flagAddr = False\<rparr> = Inl (Panic msg))
   \<and> parseFieldStruct
       \<lparr>Tag = \<lparr>ddl = ''identifier,equals'', db = ''TO''\<rparr>, Exported = True,
        Type_Kind = KStruct\<rparr>
       (VStruct None
          [(\<lparr>Tag = \<lparr>ddl = ''static'', db = ''FOO''\<rparr>, Exported = True\<rparr>, VBool False)])
       \<lparr>flagRO = False, flagAddr = False\<rparr>
     = Inr (Some (sqlStaticClause ''FOO''))"
proof -
  let ?f = "\<lparr>Tag = \<lparr>ddl = ''identifier'', db = ''TO''\<rparr>, Exported = True, Type_Kind = KString\<rparr>"
  let ?g = "\<lparr>Tag = \<lparr>ddl = ''identifier,equals'', db = ''TO''\<rparr>, Exported = True,
        Type_Kind = KStruct\<rparr>"
  let ?fs = "[(\<lparr>Tag = \<lparr>ddl = ''static'', db = ''FOO''\<rparr>, Exported = True\<rparr>, VBool False)]"
  let ?fl = "\<lparr>flagRO = False, flagAddr = False\<rparr>"
  have f: "firstPart (Get (Tag ?f) ''ddl'') = ''identifier''" by code_simp
  have g: "firstPart (Get (Tag ?g) ''ddl'') = ''identifier''" by code_simp
  have v: "isScalar (VString ''S1'') \<and> Type_Kind ?f \<noteq> KStruct" by code_simp
  have r: "readable ?fl" by code_simp
  have s: "(case parseStruct (VStruct None ?fs) of
              Inl err \<Rightarrow> Inl err
            | Inr cs \<Rightarrow> Inr (Some (renderStaticClause (map Some cs))))
           = Inr (Some (sqlStaticClause ''FOO''))"
    by code_simp
  from identifier_tag_without_capability [OF f, of "VString ''S1''" ?fl]
    identifier_tag_without_capability [OF g, of "VString ''S1''" ?fl ?fs] v r s
  show ?thesis by simp
qed

subsection \<open>Static fields\<close>

text \<open>
  Counterexample to claim C5 as stated (a static field is emitted whatever its value,
  optional pointer fields included): a static field that is a nil pointer is skipped by
  the loop of \<open>parseStruct\<close>, and the statement is empty.
\<close>

theorem static_nil_pointer_skipped:
  "structToSQL (VStruct None
     [(\<lparr>Tag = \<lparr>ddl = ''static'', db = ''GRANT''\<rparr>, Exported = True\<rparr>, VNil)]) = Inr []"
  by code_simp

text \<open>
  Claim C5, amended. For every field whose kind tag is \<open>static\<close> and whose value is not
  a nil pointer and, after one dereference, neither a slice nor a struct, the loop of
  \<open>parseStruct\<close> appends the static clause of the name tag, whatever the value is
  (false booleans, zero values and non-nil pointers included) and whether or not the
  field is exported or addressable. A static field that is a nil pointer is skipped:
  nothing is appended for it.
\<close>

theorem parseStruct_loop_static:
  assumes "firstPart (Get (Tag decl) ''ddl'') = ''static''"
  shows "(v \<noteq> VNil \<and> KindOf (derefOnce v) \<noteq> KSlice \<and> KindOf (derefOnce v) \<noteq> KStruct
            \<longrightarrow> parseStruct_loop ((decl, v) # rest) vflag clauses
                 = parseStruct_loop rest vflag
                     (clauses @ [Some (sqlStaticClause (Get (Tag decl) ''db''))]))
         \<and> parseStruct_loop ((decl, VNil) # rest) vflag clauses
             = parseStruct_loop rest vflag clauses"
proof -
  from assms have ddl: "Get (Tag decl) ''ddl'' \<noteq> []"
    using firstPart_Nil by auto
  have st: "parseField f x fl = Inr (Some (sqlStaticClause (Get (Tag decl) ''db'')))"
    if "Tag f = Tag decl" for f x fl
    using that assms ddl by (simp add: parseField.simps)
  show ?thesis
    by (cases v) (auto simp: parseStruct_switch.simps st derefOnce_def IsNil_def)
qed

text \<open>Witness of C5, amended: the unexported static field \<open>GRANT\<close> of a struct passed
  by value, holding the boolean false, and holding a nil pointer.\<close>

theorem parseStruct_loop_static_witness:
  "parseStruct_loop
       [(\<lparr>Tag = \<lparr>ddl = ''static'', db = ''GRANT''\<rparr>, Exported = False\<rparr>, VBool False)]
       \<lparr>flagRO = False, flagAddr = False\<rparr> []
     = Inr [Some (sqlStaticClause ''GRANT'')]
   \<and> parseStruct_loop
       [(\<lparr>Tag = \<lparr>ddl = ''static'', db = ''GRANT''\<rparr>, Exported = False\<rparr>, VNil)]
       \<lparr>flagRO = False, flagAddr = False\<rparr> [] = Inr []"
proof -
  let ?decl = "\<lparr>Tag = \<lparr>ddl = ''static'', db = ''GRANT''\<rparr>, Exported = False\<rparr>"
  have t: "firstPart (Get (Tag ?decl) ''ddl'') = ''static''" by code_simp
  have v: "VBool False \<noteq> VNil \<and> KindOf (derefOnce (VBool False)) \<noteq> KSlice
             \<and> KindOf (derefOnce (VBool False)) \<noteq> KStruct"
    by code_simp
  have d: "Get (Tag ?decl) ''db'' = ''GRANT''" by code_simp
  from parseStruct_loop_static [OF t, of "VBool False" "[]" "\<lparr>flagRO = False, flagAddr = False\<rparr>" "[]"] v d
  show ?thesis by simp
qed

subsection \<open>Parameter clauses\<close>

lemma sqlParameterClause_String_cases:
  "String (sqlParameterClause k (Some v) qm em rm) =
     (if rm = Reverse then quoteModifier_Modify qm v @ '' '' @ k
      else equalsModifier_Modify em (VString k) @ quoteModifier_Modify qm v)"
  by (simp add: reverseModifier_Modify_def Reverse_def NoReverse_def)

lemma sqlParameterClause_String_examples:
  \<open>String (sqlParameterClause ''k'' (Some (VString ''v'')) DoubleQuotes Equals NoReverse)
     = ''k = "v"''
   \<and> String (sqlParameterClause ''k'' (Some (VString ''v'')) DoubleQuotes Equals Reverse)
     = ''"v" k''\<close>
  by code_simp

text \<open>
  Claim C6. A parameter clause with key \<open>k\<close> and value \<open>v\<close> renders, without the
  reverse modifier, as the key under the equality modifier followed by the value under
  the quote modifier: \<^verbatim>\<open>k = "v"\<close> under equals and double quotes. With the reverse
  modifier it renders as the value under the quote modifier, one space and the key; the
  equality modifier has no part in that text, so no equals sign is emitted for it.
\<close>

theorem parameter_clause_rendering:
  \<open>String (sqlParameterClause k (Some v) qm em rm) =
     (if rm = Reverse then quoteModifier_Modify qm v @ '' '' @ k
      else equalsModifier_Modify em (VString k) @ quoteModifier_Modify qm v)
   \<and> String (sqlParameterClause ''k'' (Some (VString ''v'')) DoubleQuotes Equals NoReverse)
     = ''k = "v"''
   \<and> String (sqlParameterClause ''k'' (Some (VString ''v'')) DoubleQuotes Equals Reverse)
     = ''"v" k''\<close>
  using sqlParameterClause_String_cases sqlParameterClause_String_examples by blast

subsection \<open>The statement assembler\<close>

text \<open>
  Claim C7. For every list of clauses, \<open>sql\<close> returns the rendered texts of the clauses
  that are not nil and do not render to the empty string, joined by single spaces and
  trimmed of spaces at both ends: the join is the result with some spaces before and
  after it, and the result neither starts nor ends with a space. The pruning loop of
  \<open>parseStruct\<close> keeps the clauses with exactly these texts.
\<close>

theorem sql_joins_non_empty:
  "sql clauses = Trim (Join (nonEmptyTexts clauses) '' '') '' ''
   \<and> (\<exists>n m. Join (nonEmptyTexts clauses) '' ''
         = replicate n CHR '' '' @ sql clauses @ replicate m CHR '' '')
   \<and> take 1 (sql clauses) \<noteq> '' ''
   \<and> take 1 (rev (sql clauses)) \<noteq> '' ''
   \<and> map String (prune clauses) = nonEmptyTexts clauses"
  unfolding sql_def sql_loop_eq
  using Trim_decomp Trim_no_leading Trim_no_trailing prune_texts by auto

subsection \<open>Keyword fields\<close>













subsection \<open>The grantee of a grant to a share\<close>

text \<open>
  Claim C9. \<open>toGrant\<close> returns no error. When the granted-to object type of the row is
  SHARE, the grantee name of the grant is the account object identifier of the segments
  of the row's grantee name after the first, joined by dots, which is the text after the
  first dot; for every other granted-to type it is the identifier of the row's grantee
  name, unchanged.
\<close>

theorem toGrant_grantee_name:
  "\<exists>g. toGrant row = Inr g
     \<and> Grant.GranteeName g =
         NewAccountObjectIdentifier
           (if grantRow.GrantedTo row = ObjectTypeShare
            then Join (tl (Split (grantRow.GranteeName row) CHR ''.'')) ''.''
            else grantRow.GranteeName row)
     \<and> Join (tl (Split (grantRow.GranteeName row) CHR ''.'')) ''.''
         = drop 1 (dropWhile (\<lambda>c. c \<noteq> CHR ''.'') (grantRow.GranteeName row))"
proof -
  obtain p ps where sp: "Split (grantRow.GranteeName row) CHR ''.'' = p # ps"
    using Split_not_Nil by (cases "Split (grantRow.GranteeName row) CHR ''.''") auto
  have "Join (tl (Split (grantRow.GranteeName row) CHR ''.'')) [CHR ''.'']
         = drop 1 (dropWhile (\<lambda>c. c \<noteq> CHR ''.'') (grantRow.GranteeName row))"
    by (rule Join_tl_Split)
  with sp show ?thesis by (simp add: toGrant_def)
qed

subsection \<open>An identifier with an empty name\<close>

text \<open>
  Counterexample to claim C10 as stated (for every struct-typed identifier field with
  an empty name the encoder returns no clause and no error): for an unexported field of
  a struct that is not addressable, here the struct passed by value, \<open>getInterface\<close>
  panics before the name is looked at.
\<close>

theorem empty_identifier_unreadable_panics:
  "structToSQL (VStruct None
     [(\<lparr>Tag = \<lparr>ddl = ''identifier'', db = ''TO SHARE''\<rparr>, Exported = False\<rparr>,
       IdentifierValue (NewAccountObjectIdentifier []))])
     = Inl (Panic ''reflect.Value.UnsafeAddr of unaddressable value'')"
  by code_simp

text \<open>
  Claim C10, amended. For a struct-typed field whose kind tag is \<open>identifier\<close>, that
  reflection can read (the field is exported, or its struct is addressable) and whose
  value has the identifier methods and an empty name, \<open>parseFieldStruct\<close> returns no
  clause and no error, so the loop of \<open>parseStruct\<close> goes on with a nil clause for the
  field; the same holds for a non-nil pointer to such a value, which reflection can
  always read. The identifier is not valid for \<open>validObjectidentifier\<close>.
\<close>

theorem parseFieldStruct_empty_identifier:
  assumes "firstPart (Get (Tag decl) ''ddl'') = ''identifier''"
    and "Identifier.Name ident = []"
    and "readable (Field_flag vflag decl)"
  shows "parseFieldStruct \<lparr>Tag = Tag decl, Exported = Exported decl, Type_Kind = KStruct\<rparr>
             (VStruct (Some ident) fs) (Field_flag vflag decl) = Inr None
         \<and> parseStruct_loop ((decl, VStruct (Some ident) fs) # rest) vflag clauses
             = parseStruct_loop rest vflag (clauses @ [None])
         \<and> parseStruct_loop ((decl, VPtr (VStruct (Some ident) fs)) # rest) vflag clauses
             = parseStruct_loop rest vflag (clauses @ [None])
         \<and> \<not> validObjectidentifier ident"
proof -
  from assms(1) have ddl: "Get (Tag decl) ''ddl'' \<noteq> []"
    using firstPart_Nil by auto
  have a: "parseFieldStruct f (VStruct (Some ident) fs) fl = Inr None"
    if "Tag f = Tag decl" "readable fl" for f fl
    using that assms(1,2) ddl
    by (auto simp: parseFieldStruct.simps getInterface_def CanInterface_def readable_def)
  have r: "readable (Elem_flag fl)" for fl
    by (simp add: readable_def Elem_flag_def)
  have b: "parseStruct_loop ((decl, VStruct (Some ident) fs) # rest) vflag clauses
             = parseStruct_loop rest vflag (clauses @ [None])"
    using assms(3) by (simp add: parseStruct_switch.simps a)
  have c: "parseStruct_loop ((decl, VPtr (VStruct (Some ident) fs)) # rest) vflag clauses
             = parseStruct_loop rest vflag (clauses @ [None])"
    by (simp add: parseStruct_switch.simps a r IsNil_def)
  from a [OF _ assms(3)] b c assms(2) show ?thesis
    by (simp add: validObjectidentifier_def)
qed

text \<open>Witness of C10, amended: an unset database, the zero account object identifier,
  in an exported field of a struct passed by value; the tag also names a modifier.\<close>

theorem parseFieldStruct_empty_identifier_witness:
  "parseStruct_loop
       [(\<lparr>Tag = \<lparr>ddl = ''identifier,equals'', db = ''DATABASE''\<rparr>, Exported = True\<rparr>,
         IdentifierValue (NewAccountObjectIdentifier []))]
       \<lparr>flagRO = False, flagAddr = False\<rparr> [] = Inr [None]
   \<and> \<not> validObjectidentifier (NewAccountObjectIdentifier [])"
proof -
  let ?decl = "\<lparr>Tag = \<lparr>ddl = ''identifier,equals'', db = ''DATABASE''\<rparr>, Exported = True\<rparr>"
  let ?fl = "\<lparr>flagRO = False, flagAddr = False\<rparr>"
  have f: "firstPart (Get (Tag ?decl) ''ddl'') = ''identifier''" by code_simp
  have n: "Identifier.Name (NewAccountObjectIdentifier []) = []"
    by (simp add: NewAccountObjectIdentifier_def)
  have r: "readable (Field_flag ?fl ?decl)" by code_simp
  from parseFieldStruct_empty_identifier [OF f n r, of _ "[]" "[]"]
  show ?thesis by (simp add: IdentifierValue_def)
qed

end
